theory Spec2Isabelle
  imports Complex_Main "HOL-Library.Multiset"
begin

section \<open>Python exceptions\<close>

text \<open>
  The exceptions that can leave the code under study.  \<open>Exception msg\<close> is a plain
  \<^verbatim>\<open>Exception(msg)\<close>; \<open>IndexError\<close> is what \<^verbatim>\<open>ex.args[0]\<close> raises on an empty argument
  tuple; \<open>BaseException\<close> stands for an exception outside the \<^verbatim>\<open>Exception\<close> hierarchy
  (\<^verbatim>\<open>KeyboardInterrupt\<close>, \<^verbatim>\<open>SystemExit\<close>), which no handler of the worker catches.
\<close>

datatype py_error = Exception string | IndexError | BaseException

section \<open>cookies.py: the credential store\<close>

text \<open>
  \<^verbatim>\<open>CookieManager\<close> keeps the list of cookie files (which may be \<^verbatim>\<open>None\<close>) and the
  current cookie file.  Only the two fields that \<^verbatim>\<open>rotate_cookie_file\<close> and
  \<^verbatim>\<open>kill_cookie_file\<close> touch are modelled.
\<close>

record CookieManager =
  cookie_files :: "string list option"
  current_cookie_file :: "string option"

text \<open>Truth value of \<^verbatim>\<open>self.cookie_files\<close>: \<^verbatim>\<open>None\<close> and the empty list are false.\<close>

fun truthy_files :: "string list option \<Rightarrow> bool" where
  "truthy_files None = False"
| "truthy_files (Some fs) = (fs \<noteq> [])"

text \<open>
  \<^verbatim>\<open>__init__\<close>.  The result of \<^verbatim>\<open>generate_edge_cookie_files()\<close>, which lists directories of
  the machine, is the parameter \<open>generated\<close>; \<open>browser_is_edge\<close> is the test
  \<^verbatim>\<open>browser == browser_cookie3.edge\<close>.
\<close>

definition CookieManager_init :: "bool \<Rightarrow> string list \<Rightarrow> string list option \<Rightarrow> CookieManager" where
  "CookieManager_init browser_is_edge generated files =
     (let cf = (if browser_is_edge \<and> \<not> truthy_files files then Some generated else files)
      in \<lparr>cookie_files = cf,
          current_cookie_file = (if truthy_files cf then Some (the cf ! 0) else None)\<rparr>)"

text \<open>
  \<^verbatim>\<open>
  def rotate_cookie_file(self):
      if self.cookie_files and len(self.cookie_files) > 1:
          self.cookie_files = self.cookie_files[1:] + self.cookie_files[:1]
          self.current_cookie_file = self.cookie_files[0]
  \<close>
\<close>

definition rotate_cookie_file :: "CookieManager \<Rightarrow> CookieManager" where
  "rotate_cookie_file cm =
     (if truthy_files (cookie_files cm) \<and> length (the (cookie_files cm)) > 1
      then (let fs = drop 1 (the (cookie_files cm)) @ take 1 (the (cookie_files cm))
            in cm\<lparr>cookie_files := Some fs, current_cookie_file := Some (fs ! 0)\<rparr>)
      else cm)"

text \<open>
  \<^verbatim>\<open>
  def kill_cookie_file(self):
      if self.cookie_files and len(self.cookie_files) > 1:
          self.cookie_files = self.cookie_files[1:]
          self.current_cookie_file = self.cookie_files[0]
      else:
          raise Exception("Cannot kill the last cookie file.")
  \<close>
  The result pairs the exception raised, if any, with the state of the object afterwards.
\<close>

definition kill_cookie_file :: "CookieManager \<Rightarrow> py_error option \<times> CookieManager" where
  "kill_cookie_file cm =
     (if truthy_files (cookie_files cm) \<and> length (the (cookie_files cm)) > 1
      then (let fs = drop 1 (the (cookie_files cm))
            in (None, cm\<lparr>cookie_files := Some fs, current_cookie_file := Some (fs ! 0)\<rparr>))
      else (Some (Exception ''Cannot kill the last cookie file.''), cm))"

text \<open>The stored credentials as a list (none when the field is \<^verbatim>\<open>None\<close>).\<close>

fun files_of :: "CookieManager \<Rightarrow> string list" where
  "files_of cm = (case cookie_files cm of None \<Rightarrow> [] | Some fs \<Rightarrow> fs)"

text \<open>
  The invariant that \<^verbatim>\<open>__init__\<close> sets up and both operations keep: the current cookie
  file is the first of the list, and \<^verbatim>\<open>None\<close> when there is none.
\<close>

definition current_is_first :: "CookieManager \<Rightarrow> bool" where
  "current_is_first cm =
     (current_cookie_file cm = (case files_of cm of [] \<Rightarrow> None | f # _ \<Rightarrow> Some f))"

section \<open>chatbot.py: the adapters\<close>

text \<open>
  The four adapter classes.  \<^verbatim>\<open>Copilot\<close> and \<^verbatim>\<open>Gemini\<close> derive from
  \<^verbatim>\<open>_UnofficialChatbot\<close> and own a \<^verbatim>\<open>CookieManager\<close>; \<^verbatim>\<open>OpenAI\<close> and \<^verbatim>\<open>HuggingFace\<close> derive
  from \<^verbatim>\<open>_Chatbot\<close> only, and their \<open>cookie_manager\<close> field is never read.
\<close>

datatype chatbot_class = OpenAI | Copilot | Gemini | HuggingFace

datatype ConversationStyle = balanced | precise | creative

text \<open>
  The \<^verbatim>\<open>temperature\<close> attribute, as the constructors type it: a number for \<^verbatim>\<open>OpenAI\<close> and
  \<^verbatim>\<open>HuggingFace\<close>, a conversation style for \<^verbatim>\<open>Copilot\<close>, \<^verbatim>\<open>None\<close> for \<^verbatim>\<open>Gemini\<close>.
\<close>

datatype temperature = Number real | Style ConversationStyle | NoTemperature

record Chatbot =
  cls :: chatbot_class
  name :: string
  temperature :: temperature
  cookie_manager :: CookieManager

definition is_unofficial :: "Chatbot \<Rightarrow> bool" where
  "is_unofficial cb = (cls cb = Copilot \<or> cls cb = Gemini)"

fun temperature_to_string :: "ConversationStyle \<Rightarrow> string" where
  "temperature_to_string balanced = ''Balanced''"
| "temperature_to_string precise = ''Precise''"
| "temperature_to_string creative = ''Creative''"

text \<open>
  What a call of \<^verbatim>\<open>chatbot.query(prompt)\<close> does, seen from the worker: it returns a
  response, or raises \<^verbatim>\<open>asyncio.TimeoutError\<close>, a \<^verbatim>\<open>RuntimeError\<close>, another \<^verbatim>\<open>Exception\<close>
  (with its \<^verbatim>\<open>args\<close>), or something outside \<^verbatim>\<open>Exception\<close>.  Of an argument of an
  exception only whether it is a string, and which, is kept.
\<close>

datatype py_value = Str string | NotStr

datatype outcome =
    Returned string
  | TimeoutError
  | RuntimeError
  | OtherException "py_value list"
  | Uncaught

text \<open>
  One pass through the body of the worker's loop reads these values from outside the
  program: the two random draws, the clock and the behaviour of the backend.
\<close>

record attempt =
  delay_draw :: real
  cooldown_draw :: real
  now :: real
  backend :: outcome

text \<open>
  \<^verbatim>\<open>Copilot.query\<close> and \<^verbatim>\<open>Gemini.query\<close> first rotate the cookie file and read the cookies,
  which raises \<^verbatim>\<open>Exception("No current cookie file.")\<close> when the current cookie file is
  \<^verbatim>\<open>None\<close> or the empty string; only then is the backend called.  \<^verbatim>\<open>OpenAI.query\<close> and
  \<^verbatim>\<open>HuggingFace.query\<close> call the backend at once.
\<close>

definition chatbot_query :: "Chatbot \<Rightarrow> attempt \<Rightarrow> outcome \<times> Chatbot" where
  "chatbot_query cb a =
     (if is_unofficial cb
      then (let cm = rotate_cookie_file (cookie_manager cb);
                cb' = cb\<lparr>cookie_manager := cm\<rparr>
            in if current_cookie_file cm = None \<or> current_cookie_file cm = Some []
               then (OtherException [Str ''No current cookie file.''], cb')
               else (backend a, cb'))
      else (backend a, cb))"

section \<open>multichatbot.py: records, files and configuration\<close>

datatype json_value = JNumber real | JString string | JNull

record ResultRecord =
  timestamp :: real
  chatbot :: string
  prompt :: string
  temperature_value :: json_value
  response :: string

text \<open>
  \<^verbatim>\<open>chatbot.temperature_to_string() if type(chatbot.temperature) == EdgeGPT.ConversationStyle
  else chatbot.temperature\<close>
\<close>

fun render_temperature :: "temperature \<Rightarrow> json_value" where
  "render_temperature (Style s) = JString (temperature_to_string s)"
| "render_temperature (Number x) = JNumber x"
| "render_temperature NoTemperature = JNull"

text \<open>
  A file of the store holds a JSON document, the list of records that \<^verbatim>\<open>json.load\<close>
  returns, or is \<open>Incomplete\<close>: opened for writing, hence truncated, and not yet written
  and closed.  \<^verbatim>\<open>json.load\<close> raises on an incomplete file.
\<close>

datatype file_content = Document "ResultRecord list" | Incomplete

type_synonym file_store = "string \<rightharpoonup> file_content"

datatype status = Finished | Raised py_error | Pending

text \<open>The two steps of \<^verbatim>\<open>with open(path, "w") as f: f.write(json.dumps(rs))\<close>.\<close>

definition open_w :: "string \<Rightarrow> file_store \<Rightarrow> file_store" where
  "open_w path fs = fs(path \<mapsto> Incomplete)"

definition write_close :: "string \<Rightarrow> ResultRecord list \<Rightarrow> file_store \<Rightarrow> file_store" where
  "write_close path rs fs = fs(path \<mapsto> Document rs)"

definition write_json :: "string \<Rightarrow> ResultRecord list \<Rightarrow> file_store \<Rightarrow> file_store" where
  "write_json path rs fs = write_close path rs (open_w path fs)"

text \<open>
  The states of the store that a process killed during \<open>write_json\<close> can leave behind:
  before the \<^verbatim>\<open>open\<close>, between the \<^verbatim>\<open>open\<close> and the completed write, and after it.
\<close>

definition write_json_states :: "string \<Rightarrow> ResultRecord list \<Rightarrow> file_store \<Rightarrow> file_store list" where
  "write_json_states path rs fs = [fs, open_w path fs, write_close path rs (open_w path fs)]"

text \<open>
  \<^verbatim>\<open>
  rs = []
  if os.path.exists(path):
      with open(path, "r") as f:
          rs = json.load(f)
  \<close>
\<close>

definition load_if_exists :: "file_store \<Rightarrow> string \<Rightarrow> py_error + ResultRecord list" where
  "load_if_exists fs path =
     (case fs path of
        None \<Rightarrow> Inr []
      | Some (Document rs) \<Rightarrow> Inr rs
      | Some Incomplete \<Rightarrow> Inl (Exception ''JSONDecodeError''))"

record MultiChatbot =
  chatbots :: "Chatbot list"
  prompts :: "string list"
  temp_dir :: string
  output_dir :: string
  output_filename :: string
  runs :: int
  max_errors :: int

text \<open>\<^verbatim>\<open>str.lower\<close> on ASCII text, and \<^verbatim>\<open>os.path.join\<close> of two POSIX paths.\<close>

definition lower_char :: "char \<Rightarrow> char" where
  "lower_char c =
     (case map_of (zip ''ABCDEFGHIJKLMNOPQRSTUVWXYZ'' ''abcdefghijklmnopqrstuvwxyz'') c of
        None \<Rightarrow> c
      | Some l \<Rightarrow> l)"

definition lower :: "string \<Rightarrow> string" where
  "lower s = map lower_char s"

definition path_join :: "string \<Rightarrow> string \<Rightarrow> string" where
  "path_join a b =
     (if take 1 b = ''/'' then b
      else if a = [] \<or> last a = CHR ''/'' then a @ b
      else a @ ''/'' @ b)"

definition temp_filename :: "MultiChatbot \<Rightarrow> Chatbot \<Rightarrow> string" where
  "temp_filename cfg cb = path_join (temp_dir cfg) (lower (name cb) @ ''.json'')"

definition output_path :: "MultiChatbot \<Rightarrow> string" where
  "output_path cfg = path_join (output_dir cfg) (output_filename cfg)"

section \<open>multichatbot.py: the worker\<close>

text \<open>The test \<^verbatim>\<open>needle in text\<close> on strings.\<close>

fun py_in :: "string \<Rightarrow> string \<Rightarrow> bool" where
  "py_in needle [] = (needle = [])"
| "py_in needle (c # cs) = (take (length needle) (c # cs) = needle \<or> py_in needle cs)"

text \<open>
  \<^verbatim>\<open>type(ex.args[0]) is str and test(ex.args[0])\<close>: indexing an empty \<^verbatim>\<open>args\<close> raises
  \<^verbatim>\<open>IndexError\<close>.
\<close>

fun str_arg0_has :: "(string \<Rightarrow> bool) \<Rightarrow> py_value list \<Rightarrow> py_error + bool" where
  "str_arg0_has test [] = Inl IndexError"
| "str_arg0_has test (Str s # _) = Inr (test s)"
| "str_arg0_has test (NotStr # _) = Inr False"

text \<open>
  The \<^verbatim>\<open>if\<close>/\<^verbatim>\<open>elif\<close> chain of the handler \<^verbatim>\<open>except Exception as ex\<close>, in its order.  Each
  condition is \<^verbatim>\<open>isinstance(chatbot, C) and type(ex.args[0]) is str and ...\<close>, so
  \<^verbatim>\<open>ex.args[0]\<close> is evaluated only when the class test holds.
\<close>

datatype branch = ShortSleep | KillCookie | Unhandled

definition except_branch :: "chatbot_class \<Rightarrow> py_value list \<Rightarrow> py_error + branch" where
  "except_branch c args =
     (case (if c = OpenAI then str_arg0_has (py_in ''Rate limit reached'') args else Inr False) of
        Inl e \<Rightarrow> Inl e
      | Inr True \<Rightarrow> Inr ShortSleep
      | Inr False \<Rightarrow>
     (case (if c = HuggingFace then str_arg0_has (py_in ''Model is overloaded'') args else Inr False) of
        Inl e \<Rightarrow> Inl e
      | Inr True \<Rightarrow> Inr ShortSleep
      | Inr False \<Rightarrow>
     (case (if c = Gemini then str_arg0_has (py_in ''SNlM0e value not found'') args else Inr False) of
        Inl e \<Rightarrow> Inl e
      | Inr True \<Rightarrow> Inr KillCookie
      | Inr False \<Rightarrow>
     (case (if c = Copilot
            then str_arg0_has (\<lambda>s. py_in ''CaptchaChallenge'' s \<or> py_in ''Authentication failed'' s) args
            else Inr False) of
        Inl e \<Rightarrow> Inl e
      | Inr True \<Rightarrow> Inr KillCookie
      | Inr False \<Rightarrow> Inr Unhandled))))"

text \<open>
  What the worker does to the outside, in order: \<open>Sleep t\<close> is \<^verbatim>\<open>time.sleep(t)\<close>,
  \<open>Query p\<close> a call \<^verbatim>\<open>chatbot.query(p)\<close>.  The log file and the progress bar are left out.
\<close>

datatype event = Sleep real | Query string

text \<open>
  The variables of \<^verbatim>\<open>_query_chatbot\<close>: the loop counters \<open>run\<close> and \<open>error_count\<close>, the list
  \<open>temp_results\<close>, the adapter (whose cookie manager changes), the files, and the events so
  far.
\<close>

record worker =
  run :: int
  error_count :: int
  temp_results :: "ResultRecord list"
  bot :: Chatbot
  store :: file_store
  events :: "event list"

text \<open>
  \<^verbatim>\<open>waiting_time = min(error_count - self.max_errors + 1, 10) * random.uniform(55, 65)\<close>,
  with the draw \<open>u\<close>.
\<close>

definition waiting_time :: "int \<Rightarrow> int \<Rightarrow> real \<Rightarrow> real" where
  "waiting_time ec mx u = of_int (min (ec - mx + 1) 10) * u"

text \<open>
  The two rate limits at the head of the \<^verbatim>\<open>try\<close> block: the pause of an unofficial API
  (\<^verbatim>\<open>random.uniform(15, 45)\<close>), then the cool-down after \<open>max_errors\<close> errors in a row.
\<close>

definition unofficial_delay :: "attempt \<Rightarrow> worker \<Rightarrow> event list" where
  "unofficial_delay a w = (if is_unofficial (bot w) then [Sleep (delay_draw a)] else [])"

definition cool_down :: "MultiChatbot \<Rightarrow> attempt \<Rightarrow> worker \<Rightarrow> event list" where
  "cool_down cfg a w =
     (if error_count w \<ge> max_errors cfg
      then [Sleep (waiting_time (error_count w) (max_errors cfg) (cooldown_draw a))]
      else [])"

text \<open>One pass through the body of \<^verbatim>\<open>while run < self.runs - prompt_runs\<close>.\<close>

definition iteration :: "MultiChatbot \<Rightarrow> string \<Rightarrow> attempt \<Rightarrow> worker \<Rightarrow> py_error option \<times> worker" where
  "iteration cfg p a w =
     (let (out, cb) = chatbot_query (bot w) a;
          w1 = w\<lparr>bot := cb, events := events w @ unofficial_delay a w @ cool_down cfg a w @ [Query p]\<rparr>
      in case out of
           Returned text \<Rightarrow>
             (let rs = temp_results w @
                        [\<lparr>timestamp = now a, chatbot = name (bot w), prompt = p,
                          temperature_value = render_temperature (temperature (bot w)),
                          response = text\<rparr>]
              in (None, w1\<lparr>temp_results := rs,
                            store := write_json (temp_filename cfg (bot w)) rs (store w),
                            run := run w + 1, error_count := 0\<rparr>))
         | TimeoutError \<Rightarrow> (None, w1\<lparr>error_count := error_count w + 1\<rparr>)
         | RuntimeError \<Rightarrow> (None, w1\<lparr>error_count := error_count w + 1\<rparr>)
         | OtherException args \<Rightarrow>
             (case except_branch (cls cb) args of
                Inl e \<Rightarrow> (Some e, w1)
              | Inr ShortSleep \<Rightarrow> (None, w1\<lparr>events := events w1 @ [Sleep 1]\<rparr>)
              | Inr KillCookie \<Rightarrow>
                  (case kill_cookie_file (cookie_manager cb) of
                     (Some e, cm) \<Rightarrow> (Some e, w1\<lparr>bot := cb\<lparr>cookie_manager := cm\<rparr>\<rparr>)
                   | (None, cm) \<Rightarrow> (None, w1\<lparr>bot := cb\<lparr>cookie_manager := cm\<rparr>\<rparr>))
              | Inr Unhandled \<Rightarrow> (None, w1\<lparr>error_count := error_count w + 1\<rparr>))
         | Uncaught \<Rightarrow> (Some BaseException, w1))"

text \<open>
  The loop \<^verbatim>\<open>while run < self.runs - prompt_runs\<close>, with \<open>limit\<close> for
  \<^verbatim>\<open>self.runs - prompt_runs\<close>.  The loop has no bound of its own: it runs as long as the
  backend fails.  The list of attempts is what the outside delivers; when it ends with runs
  still to do, the status is \<open>Pending\<close>.  The attempts not consumed are returned.
\<close>

fun while_runs ::
  "MultiChatbot \<Rightarrow> string \<Rightarrow> int \<Rightarrow> attempt list \<Rightarrow> worker \<Rightarrow> status \<times> attempt list \<times> worker" where
  "while_runs cfg p limit [] w = (if run w < limit then Pending else Finished, [], w)"
| "while_runs cfg p limit (a # as) w =
     (if run w < limit
      then (case iteration cfg p a w of
              (Some e, w') \<Rightarrow> (Raised e, as, w')
            | (None, w') \<Rightarrow> while_runs cfg p limit as w')
      else (Finished, a # as, w))"

definition temp_count :: "ResultRecord list \<Rightarrow> string \<Rightarrow> int" where
  "temp_count rs p = int (length (filter (\<lambda>r. prompt r = p) rs))"

definition results_count :: "ResultRecord list \<Rightarrow> string \<Rightarrow> string \<Rightarrow> int" where
  "results_count rs nm p = int (length (filter (\<lambda>r. prompt r = p \<and> chatbot r = nm) rs))"

definition prompt_runs ::
  "MultiChatbot \<Rightarrow> string \<Rightarrow> ResultRecord list \<Rightarrow> ResultRecord list \<Rightarrow> string \<Rightarrow> int" where
  "prompt_runs cfg nm temp results p =
     min (temp_count temp p) (runs cfg) + min (results_count results nm p) (runs cfg)"

text \<open>
  The loop \<^verbatim>\<open>for prompt in self.prompts\<close>: \<open>prompt_runs\<close> is computed from the list
  \<open>temp_results\<close> as it is when the prompt is reached, and \<open>run\<close> and \<open>error_count\<close> start
  at zero for each prompt.
\<close>

fun for_prompts ::
  "MultiChatbot \<Rightarrow> ResultRecord list \<Rightarrow> string list \<Rightarrow> attempt list \<Rightarrow> worker
     \<Rightarrow> status \<times> attempt list \<times> worker" where
  "for_prompts cfg results [] as w = (Finished, as, w)"
| "for_prompts cfg results (p # ps) as w =
     (case while_runs cfg p
             (runs cfg - prompt_runs cfg (name (bot w)) (temp_results w) results p) as
             (w\<lparr>run := 0, error_count := 0\<rparr>) of
        (Finished, as', w') \<Rightarrow> for_prompts cfg results ps as' w'
      | (Raised e, as', w') \<Rightarrow> (Raised e, as', w')
      | (Pending, as', w') \<Rightarrow> (Pending, as', w'))"


section \<open>multichatbot.py: combining the temp files\<close>

text \<open>
  \<^verbatim>\<open>
  for chatbot in self.chatbots:
      temp_filename = self._temp_filename(chatbot)
      if os.path.exists(temp_filename):
          with open(temp_filename, "r") as f:
              results += json.load(f)
          os.remove(temp_filename)
  \<close>
\<close>

fun combine ::
  "MultiChatbot \<Rightarrow> Chatbot list \<Rightarrow> ResultRecord list \<Rightarrow> file_store
     \<Rightarrow> py_error + (ResultRecord list \<times> file_store)" where
  "combine cfg [] results fs = Inr (results, fs)"
| "combine cfg (cb # cbs) results fs =
     (case fs (temp_filename cfg cb) of
        None \<Rightarrow> combine cfg cbs results fs
      | Some Incomplete \<Rightarrow> Inl (Exception ''JSONDecodeError'')
      | Some (Document rs) \<Rightarrow>
          combine cfg cbs (results @ rs) (fs(temp_filename cfg cb := None)))"

text \<open>
  The part of \<^verbatim>\<open>query\<close> that follows the join of the processes: load the output file if
  it exists, add every temp file, write the output file.
\<close>

definition query_after_join :: "MultiChatbot \<Rightarrow> file_store \<Rightarrow> py_error + file_store" where
  "query_after_join cfg fs =
     (case load_if_exists fs (output_path cfg) of
        Inl e \<Rightarrow> Inl e
      | Inr results \<Rightarrow>
          (case combine cfg (chatbots cfg) results fs of
             Inl e \<Rightarrow> Inl e
           | Inr (results', fs') \<Rightarrow> Inr (write_json (output_path cfg) results' fs')))"





section \<open>Concrete inputs\<close>

text \<open>
  An \<^verbatim>\<open>OpenAI\<close> adapter and a \<^verbatim>\<open>Gemini\<close> adapter with one cookie file, a configuration
  with the default directories, file name and \<open>max_errors\<close>, a worker at the start of a
  prompt's loop with a given error count, and an attempt with a given backend behaviour.
\<close>

definition example_openai :: Chatbot where
  "example_openai =
     \<lparr>cls = OpenAI, name = ''GPT-3.5'', temperature = Number 1,
      cookie_manager = CookieManager_init False [] None\<rparr>"

definition example_gemini :: Chatbot where
  "example_gemini =
     \<lparr>cls = Gemini, name = ''Gemini'', temperature = NoTemperature,
      cookie_manager = CookieManager_init False [] (Some [''cookies-1''])\<rparr>"

definition example_config :: "string list \<Rightarrow> int \<Rightarrow> MultiChatbot" where
  "example_config ps n =
     \<lparr>chatbots = [example_openai, example_gemini], prompts = ps, temp_dir = ''temp'',
      output_dir = ''output'', output_filename = ''results.json'', runs = n, max_errors = 5\<rparr>"

definition example_worker :: "Chatbot \<Rightarrow> int \<Rightarrow> worker" where
  "example_worker cb ec =
     \<lparr>run = 0, error_count = ec, temp_results = [], bot = cb, store = Map.empty, events = []\<rparr>"

definition example_attempt :: "outcome \<Rightarrow> attempt" where
  "example_attempt out = \<lparr>delay_draw = 30, cooldown_draw = 60, now = 0, backend = out\<rparr>"

definition example_record :: "string \<Rightarrow> string \<Rightarrow> ResultRecord" where
  "example_record nm p =
     \<lparr>timestamp = 0, chatbot = nm, prompt = p, temperature_value = JNull, response = ''r''\<rparr>"

definition example_store :: file_store where
  "example_store = [''temp/gpt-3.5.json'' \<mapsto> Document [example_record ''GPT-3.5'' ''p'']]"



section \<open>Properties of the credential store\<close>

lemma current_is_first_init: "current_is_first (CookieManager_init e g files)"
  by (cases files; cases "the files")
     (auto simp: current_is_first_def CookieManager_init_def Let_def split: list.splits)

lemma rotate_cookie_file_files:
  "files_of (rotate_cookie_file cm) = rotate1 (files_of cm)"
  by (cases "cookie_files cm"; cases "the (cookie_files cm)")
     (auto simp: rotate_cookie_file_def Let_def split: list.splits)



lemma rotate1_drop_take: "drop (Suc 0) xs @ take (Suc 0) xs = rotate1 xs"
  by (cases xs) simp_all

lemma funpow_fixed_point: "f x = x \<Longrightarrow> (f ^^ n) x = x"
  by (induction n) simp_all

lemma rotate_cookie_file_pow:
  assumes "cookie_files cm = Some fs" "1 < length fs"
  shows "(rotate_cookie_file ^^ Suc k) cm =
           cm\<lparr>cookie_files := Some (rotate (Suc k) fs),
              current_cookie_file := Some (rotate (Suc k) fs ! 0)\<rparr>"
proof (induction k)
  case 0
  from assms show ?case
    by (auto simp: rotate_cookie_file_def Let_def rotate1_drop_take)
next
  case (Suc k)
  have "(rotate_cookie_file ^^ Suc (Suc k)) cm = rotate_cookie_file ((rotate_cookie_file ^^ Suc k) cm)"
    by simp
  also have "\<dots> = rotate_cookie_file (cm\<lparr>cookie_files := Some (rotate (Suc k) fs),
              current_cookie_file := Some (rotate (Suc k) fs ! 0)\<rparr>)"
    by (simp only: Suc.IH)
  also have "\<dots> = cm\<lparr>cookie_files := Some (rotate (Suc (Suc k)) fs),
              current_cookie_file := Some (rotate (Suc (Suc k)) fs ! 0)\<rparr>"
    using assms(2)
    by (simp add: rotate_cookie_file_def Let_def rotate1_drop_take)
  finally show ?case .
qed

lemma rotate_cookie_file_noop:
  "length (files_of cm) \<le> 1 \<Longrightarrow> rotate_cookie_file cm = cm"
  by (cases "cookie_files cm") (auto simp: rotate_cookie_file_def)

lemma rotate_cookie_file_full_turn:
  assumes "current_is_first cm"
  shows "(rotate_cookie_file ^^ length (files_of cm)) cm = cm"
proof (cases "1 < length (files_of cm)")
  case False
  then have "rotate_cookie_file cm = cm" by (simp add: rotate_cookie_file_noop)
  then show ?thesis by (rule funpow_fixed_point)
next
  case True
  then obtain fs where fs: "cookie_files cm = Some fs" "1 < length fs"
    by (cases "cookie_files cm") auto
  then obtain n where n: "length fs = Suc n" by (cases fs) auto
  obtain f rest where fr: "fs = f # rest" using n by (cases fs) auto
  have cur: "current_cookie_file cm = Some f"
    using assms fs fr by (simp add: current_is_first_def)
  have "(rotate_cookie_file ^^ Suc n) cm =
          cm\<lparr>cookie_files := Some (rotate (Suc n) fs),
              current_cookie_file := Some (rotate (Suc n) fs ! 0)\<rparr>"
    by (rule rotate_cookie_file_pow [OF fs])
  moreover have "rotate (Suc n) fs = fs"
    using n by (metis rotate_length01 rotate_id mod_self)
  ultimately have "(rotate_cookie_file ^^ Suc n) cm = cm"
    using fs cur fr by simp
  then show ?thesis using fs n by simp
qed

text \<open>
  Claim C9.  \<^verbatim>\<open>rotate_cookie_file\<close> is a cyclic left shift of the list of cookie files.
  In a manager whose current cookie file is the first of the list (as \<^verbatim>\<open>__init__\<close> leaves
  it): with more than one file, the current file goes to the end and the second becomes
  current; the multiset of files is kept; as many rotations as there are files give the
  manager back, list and current file; with at most one file the call changes nothing.
\<close>

theorem rotate_cookie_file_cyclic_shift:
  assumes "current_is_first cm"
  shows "(1 < length (files_of cm) \<longrightarrow>
            current_cookie_file cm = Some (hd (files_of cm))
          \<and> files_of (rotate_cookie_file cm) = tl (files_of cm) @ [hd (files_of cm)]
          \<and> current_cookie_file (rotate_cookie_file cm) = Some (files_of cm ! 1))
       \<and> mset (files_of (rotate_cookie_file cm)) = mset (files_of cm)
       \<and> (rotate_cookie_file ^^ length (files_of cm)) cm = cm
       \<and> (length (files_of cm) \<le> 1 \<longrightarrow> rotate_cookie_file cm = cm)"
proof -
  have a: "1 < length (files_of cm) \<longrightarrow>
            current_cookie_file cm = Some (hd (files_of cm))
          \<and> files_of (rotate_cookie_file cm) = tl (files_of cm) @ [hd (files_of cm)]
          \<and> current_cookie_file (rotate_cookie_file cm) = Some (files_of cm ! 1)"
    using assms
    by (cases "cookie_files cm"; cases "the (cookie_files cm)")
       (auto simp: current_is_first_def rotate_cookie_file_def Let_def nth_append)
  have b: "mset (files_of (rotate_cookie_file cm)) = mset (files_of cm)"
    by (cases "files_of cm") (simp_all add: rotate_cookie_file_files del: files_of.simps)
  show ?thesis
    using a b rotate_cookie_file_full_turn [OF assms] rotate_cookie_file_noop by blast
qed

theorem rotate_cookie_file_cyclic_shift_witness:
  "current_is_first (CookieManager_init False [] (Some [''a'', ''b'', ''c'']))
   \<and> files_of (rotate_cookie_file (CookieManager_init False [] (Some [''a'', ''b'', ''c''])))
       = [''b'', ''c'', ''a'']
   \<and> (rotate_cookie_file ^^ 3) (CookieManager_init False [] (Some [''a'', ''b'', ''c'']))
       = CookieManager_init False [] (Some [''a'', ''b'', ''c''])"
proof -
  have h: "current_is_first (CookieManager_init False [] (Some [''a'', ''b'', ''c'']))"
    by (simp add: current_is_first_def CookieManager_init_def)
  have l: "length (files_of (CookieManager_init False [] (Some [''a'', ''b'', ''c'']))) = 3"
    by (simp add: CookieManager_init_def)
  show ?thesis
    using h rotate_cookie_file_cyclic_shift [OF h] l
    by (simp add: CookieManager_init_def eval_nat_numeral)
qed

section \<open>Properties of one pass of the worker's loop\<close>

lemma iteration_events_prefix:
  "\<exists>rest. events (snd (iteration cfg p a w)) =
            events w @ unofficial_delay a w @ cool_down cfg a w @ Query p # rest"
  by (cases "chatbot_query (bot w) a")
     (auto simp: iteration_def Let_def split: outcome.splits sum.splits branch.splits option.splits prod.splits)

lemma except_branch_ShortSleep:
  "except_branch c args = Inr ShortSleep \<longleftrightarrow>
     (c = OpenAI \<and> (\<exists>s rest. args = Str s # rest \<and> py_in ''Rate limit reached'' s))
   \<or> (c = HuggingFace \<and> (\<exists>s rest. args = Str s # rest \<and> py_in ''Model is overloaded'' s))"
proof (cases args)
  case Nil
  then show ?thesis by (cases c) (simp_all add: except_branch_def)
next
  case (Cons v vs)
  then show ?thesis by (cases c; cases v) (auto simp: except_branch_def split: bool.splits)
qed



text \<open>
  Claim C3, as amended.  When the query fails with a rate-limit error (an \<^verbatim>\<open>OpenAI\<close>
  adapter and a message containing "Rate limit reached", or a \<^verbatim>\<open>HuggingFace\<close> adapter and
  "Model is overloaded"), the pass sleeps one second after the query and retries; \<open>run\<close>
  is not advanced and the consecutive-failure counter is left as it was.
\<close>

theorem rate_limit_short_delay:
  "(chatbot_query (bot w) a = (OtherException args, cb) \<and> except_branch (cls cb) args = Inr ShortSleep
     \<longrightarrow> iteration cfg p a w =
           (None, w\<lparr>bot := cb,
                     events := events w @ unofficial_delay a w @ cool_down cfg a w @ [Query p, Sleep 1]\<rparr>))
   \<and> (except_branch c args = Inr ShortSleep \<longleftrightarrow>
         (c = OpenAI \<and> (\<exists>s rest. args = Str s # rest \<and> py_in ''Rate limit reached'' s))
       \<or> (c = HuggingFace \<and> (\<exists>s rest. args = Str s # rest \<and> py_in ''Model is overloaded'' s)))"
  using except_branch_ShortSleep [of c args]
  by (auto simp: iteration_def Let_def)

text \<open>
  Claim C3 as stated says that the counter is reset to zero.  With three errors counted, a
  rate-limit error leaves the counter at three.
\<close>

theorem rate_limit_counter_reset_counterexample:
  "except_branch OpenAI [Str ''Rate limit reached''] = Inr ShortSleep
   \<and> error_count (example_worker example_openai 3) = 3
   \<and> error_count (snd (iteration (example_config [''p''] 1) ''p''
        (example_attempt (OtherException [Str ''Rate limit reached'']))
        (example_worker example_openai 3))) = 3
   \<and> error_count (snd (iteration (example_config [''p''] 1) ''p''
        (example_attempt (OtherException [Str ''Rate limit reached'']))
        (example_worker example_openai 3))) \<noteq> 0"
  by (simp add: except_branch_def iteration_def chatbot_query_def example_worker_def
      example_attempt_def example_openai_def is_unofficial_def example_config_def
      unofficial_delay_def cool_down_def)

theorem rate_limit_short_delay_witness:
  "iteration (example_config [''p''] 1) ''p''
        (example_attempt (OtherException [Str ''Rate limit reached'']))
        (example_worker example_openai 3)
     = (None, (example_worker example_openai 3)\<lparr>events := [Query ''p'', Sleep 1]\<rparr>)"
proof -
  let ?cfg = "example_config [''p''] 1" and ?w = "example_worker example_openai 3"
  let ?args = "[Str ''Rate limit reached'']"
  have q: "chatbot_query (bot ?w) (example_attempt (OtherException ?args))
             = (OtherException ?args, example_openai)"
    by (simp add: chatbot_query_def example_worker_def example_attempt_def example_openai_def
        is_unofficial_def)
  have b: "except_branch (cls example_openai) ?args = Inr ShortSleep"
    by (simp add: except_branch_def example_openai_def)
  show ?thesis
    using rate_limit_short_delay [of ?w "example_attempt (OtherException ?args)" ?args example_openai ?cfg "''p''" OpenAI] q b
    by (simp add: example_worker_def unofficial_delay_def cool_down_def example_config_def
        is_unofficial_def example_openai_def)
qed

text \<open>
  Claim C5.  The cool-down: a pass that starts with the counter at or above \<open>max_errors\<close>
  sleeps \<open>min (excess + 1) 10 * u\<close> seconds before the query, where \<open>excess\<close> is the
  counter minus \<open>max_errors\<close> and \<open>u\<close> the value drawn by \<^verbatim>\<open>random.uniform(55, 65)\<close>;
  below \<open>max_errors\<close> there is no cool-down.  The sleeps of a pass come before its query,
  the pause of an unofficial API first.  For a draw in \<open>[55, 65)\<close> the cool-down is at
  least 55 and less than 650 seconds.
\<close>

theorem cool_down_formula:
  "(max_errors cfg \<le> error_count w \<longrightarrow>
      cool_down cfg a w =
        [Sleep (of_int (min (error_count w - max_errors cfg + 1) 10) * cooldown_draw a)])
   \<and> (error_count w < max_errors cfg \<longrightarrow> cool_down cfg a w = [])
   \<and> (\<exists>rest. events (snd (iteration cfg p a w)) =
                events w @ unofficial_delay a w @ cool_down cfg a w @ Query p # rest)
   \<and> (max_errors cfg \<le> error_count w \<and> 55 \<le> cooldown_draw a \<and> cooldown_draw a < 65 \<longrightarrow>
        55 \<le> waiting_time (error_count w) (max_errors cfg) (cooldown_draw a)
      \<and> waiting_time (error_count w) (max_errors cfg) (cooldown_draw a) < 650)"
proof -
  have bound: "55 \<le> waiting_time ec mx u \<and> waiting_time ec mx u < 650"
    if "mx \<le> ec" "55 \<le> u" "u < 65" for ec mx :: int and u :: real
  proof -
    let ?k = "min (ec - mx + 1) 10"
    have k: "1 \<le> ?k" "?k \<le> 10" using that(1) by simp_all
    then have kr: "1 \<le> (of_int ?k :: real)" "(of_int ?k :: real) \<le> 10" by linarith+
    have "1 * 55 \<le> of_int ?k * u" using kr that(2) by (intro mult_mono) simp_all
    moreover have "of_int ?k * u < 10 * 65"
      using kr that(2,3) by (intro mult_le_less_imp_less) simp_all
    ultimately show ?thesis by (simp add: waiting_time_def)
  qed
  show ?thesis
    using iteration_events_prefix [of cfg p a w] bound
    by (simp add: cool_down_def waiting_time_def)
qed

theorem cool_down_formula_witness:
  "cool_down (example_config [''p''] 1) (example_attempt TimeoutError) (example_worker example_openai 7)
     = [Sleep 180]
   \<and> cool_down (example_config [''p''] 1) (example_attempt TimeoutError) (example_worker example_openai 4)
     = []
   \<and> waiting_time 7 5 60 < 650"
proof -
  let ?cfg = "example_config [''p''] 1" and ?a = "example_attempt TimeoutError"
  show ?thesis
    using cool_down_formula [of ?cfg "example_worker example_openai 7" ?a "''p''"]
      cool_down_formula [of ?cfg "example_worker example_openai 4" ?a "''p''"]
    by (simp add: example_config_def example_worker_def example_attempt_def)
qed

text \<open>
  Claim C6, as amended.  With the counter \<open>e\<close> above \<open>max_errors\<close>, the cool-down is
  \<open>min (e + 1) 10 * u\<close>: one draw at \<open>e = 0\<close>, ten draws at \<open>e = 9\<close> and at \<open>e = 15\<close>.
\<close>

theorem escalation_bound:
  "(0 \<le> e \<and> error_count w = max_errors cfg + e \<longrightarrow>
      cool_down cfg a w = [Sleep (of_int (min (e + 1) 10) * cooldown_draw a)])
   \<and> waiting_time (mx + 0) mx u = 1 * u
   \<and> waiting_time (mx + 9) mx u = 10 * u
   \<and> waiting_time (mx + 15) mx u = 10 * u"
  by (simp add: cool_down_def waiting_time_def)

text \<open>
  Claim C6 as stated gives \<open>min e 10 * u\<close>.  With the counter equal to \<open>max_errors\<close>
  (\<open>e = 0\<close>) and the draw 60 the cool-down is 60 seconds, not 0; at \<open>e = 9\<close> it is 600
  seconds, not 540.
\<close>

theorem escalation_bound_counterexample:
  "error_count (example_worker example_openai 5) = max_errors (example_config [''p''] 1) + 0
   \<and> cool_down (example_config [''p''] 1) (example_attempt TimeoutError) (example_worker example_openai 5)
       = [Sleep 60]
   \<and> cool_down (example_config [''p''] 1) (example_attempt TimeoutError) (example_worker example_openai 5)
       \<noteq> [Sleep (of_int (min 0 10) * cooldown_draw (example_attempt TimeoutError))]
   \<and> waiting_time (5 + 9) 5 60 = 600
   \<and> waiting_time (5 + 9) 5 60 \<noteq> of_int (min 9 10) * 60"
  by (simp add: cool_down_def waiting_time_def example_config_def example_worker_def
      example_attempt_def)

theorem escalation_bound_witness:
  "cool_down (example_config [''p''] 1) (example_attempt TimeoutError) (example_worker example_openai 14)
     = [Sleep 600]"
  using escalation_bound [of 9 "example_worker example_openai 14" "example_config [''p''] 1"
      "example_attempt TimeoutError" 0 0]
  by (simp add: example_config_def example_worker_def example_attempt_def)

section \<open>Credential exhaustion\<close>

lemma kill_cookie_file_cases:
  "(1 < length (files_of cm) \<longrightarrow>
      kill_cookie_file cm =
        (None, cm\<lparr>cookie_files := Some (tl (files_of cm)),
                   current_cookie_file := Some (files_of cm ! 1)\<rparr>))
   \<and> (length (files_of cm) \<le> 1 \<longrightarrow>
      kill_cookie_file cm = (Some (Exception ''Cannot kill the last cookie file.''), cm))"
  by (cases "cookie_files cm"; cases "the (cookie_files cm)")
     (auto simp: kill_cookie_file_def Let_def drop_Suc)

text \<open>
  Claim C7.  \<^verbatim>\<open>kill_cookie_file\<close> raises exactly when at most one cookie file is stored,
  and then leaves the manager as it was; with more than one it succeeds, drops the first
  file, which is the current one, and makes the second current.  In the worker, when the
  handler calls \<^verbatim>\<open>kill_cookie_file\<close> on a manager with at most one file, the exception
  leaves the \<^verbatim>\<open>while\<close> loop and the loop over the prompts: the last event is the query
  that failed, the attempts that remain are not taken and the prompts that remain are not
  reached.
\<close>

theorem kill_cookie_file_exhaustion:
  "(fst (kill_cookie_file cm) = Some (Exception ''Cannot kill the last cookie file.'')
      \<longleftrightarrow> length (files_of cm) \<le> 1)
   \<and> (fst (kill_cookie_file cm) = None \<longleftrightarrow> 1 < length (files_of cm))
   \<and> (length (files_of cm) \<le> 1 \<longrightarrow> snd (kill_cookie_file cm) = cm)
   \<and> (1 < length (files_of cm) \<longrightarrow>
        files_of (snd (kill_cookie_file cm)) = tl (files_of cm)
      \<and> current_cookie_file (snd (kill_cookie_file cm)) = Some (files_of cm ! 1)
      \<and> (current_is_first cm \<longrightarrow> current_cookie_file cm = Some (hd (files_of cm))))
   \<and> (run w < limit \<and> chatbot_query (bot w) a = (OtherException args, cb)
        \<and> except_branch (cls cb) args = Inr KillCookie
        \<and> length (files_of (cookie_manager cb)) \<le> 1
      \<longrightarrow> while_runs cfg p limit (a # as) w =
            (Raised (Exception ''Cannot kill the last cookie file.''), as,
             w\<lparr>bot := cb,
               events := events w @ unofficial_delay a w @ cool_down cfg a w @ [Query p]\<rparr>))
   \<and> (while_runs cfg p (runs cfg - prompt_runs cfg (name (bot w)) (temp_results w) results p) as0
          (w\<lparr>run := 0, error_count := 0\<rparr>) = (Raised e, as', w')
      \<longrightarrow> for_prompts cfg results (p # ps) as0 w = (Raised e, as', w'))"
proof -
  have k: "(1 < length (files_of cm) \<longrightarrow>
      kill_cookie_file cm =
        (None, cm\<lparr>cookie_files := Some (tl (files_of cm)),
                   current_cookie_file := Some (files_of cm ! 1)\<rparr>))
   \<and> (length (files_of cm) \<le> 1 \<longrightarrow>
      kill_cookie_file cm = (Some (Exception ''Cannot kill the last cookie file.''), cm))"
    by (rule kill_cookie_file_cases)
  have c1: "fst (kill_cookie_file cm) = Some (Exception ''Cannot kill the last cookie file.'')
      \<longleftrightarrow> length (files_of cm) \<le> 1"
    using k by (cases "1 < length (files_of cm)") auto
  have c2: "fst (kill_cookie_file cm) = None \<longleftrightarrow> 1 < length (files_of cm)"
    using k by (cases "1 < length (files_of cm)") auto
  have c3: "length (files_of cm) \<le> 1 \<longrightarrow> snd (kill_cookie_file cm) = cm"
    using k by auto
  have c4: "1 < length (files_of cm) \<longrightarrow>
        files_of (snd (kill_cookie_file cm)) = tl (files_of cm)
      \<and> current_cookie_file (snd (kill_cookie_file cm)) = Some (files_of cm ! 1)
      \<and> (current_is_first cm \<longrightarrow> current_cookie_file cm = Some (hd (files_of cm)))"
    using k by (cases "files_of cm") (auto simp: current_is_first_def)
  have c5: "run w < limit \<and> chatbot_query (bot w) a = (OtherException args, cb)
        \<and> except_branch (cls cb) args = Inr KillCookie
        \<and> length (files_of (cookie_manager cb)) \<le> 1
      \<longrightarrow> while_runs cfg p limit (a # as) w =
            (Raised (Exception ''Cannot kill the last cookie file.''), as,
             w\<lparr>bot := cb,
               events := events w @ unofficial_delay a w @ cool_down cfg a w @ [Query p]\<rparr>)"
    using kill_cookie_file_cases [of "cookie_manager cb"]
    by (auto simp: iteration_def Let_def)
  have c6: "while_runs cfg p (runs cfg - prompt_runs cfg (name (bot w)) (temp_results w) results p) as0
          (w\<lparr>run := 0, error_count := 0\<rparr>) = (Raised e, as', w')
      \<longrightarrow> for_prompts cfg results (p # ps) as0 w = (Raised e, as', w')"
    by simp
  from c1 c2 c3 c4 c5 c6 show ?thesis by blast
qed

theorem kill_cookie_file_exhaustion_witness:
  "fst (kill_cookie_file (cookie_manager example_gemini))
     = Some (Exception ''Cannot kill the last cookie file.'')
   \<and> kill_cookie_file (CookieManager_init False [] (Some [''a'', ''b'']))
     = (None, CookieManager_init False [] (Some [''b'']))
   \<and> for_prompts (example_config [''p'', ''q''] 2) [] [''p'', ''q'']
        [example_attempt (OtherException [Str ''SNlM0e value not found'']),
         example_attempt (Returned ''r'')]
        (example_worker example_gemini 0)
     = (Raised (Exception ''Cannot kill the last cookie file.''),
        [example_attempt (Returned ''r'')],
        (example_worker example_gemini 0)\<lparr>events := [Sleep 30, Query ''p'']\<rparr>)"
proof -
  let ?cfg = "example_config [''p'', ''q''] 2" and ?w = "example_worker example_gemini 0"
  let ?args = "[Str ''SNlM0e value not found'']"
  let ?a = "example_attempt (OtherException ?args)" and ?as = "[example_attempt (Returned ''r'')]"
  let ?w' = "?w\<lparr>events := [Sleep 30, Query ''p'']\<rparr>"
  let ?E = "Exception ''Cannot kill the last cookie file.''"
  have q: "chatbot_query (bot ?w) ?a = (OtherException ?args, example_gemini)"
    by (simp add: chatbot_query_def example_worker_def example_attempt_def example_gemini_def
        is_unofficial_def rotate_cookie_file_def CookieManager_init_def)
  have b: "except_branch (cls example_gemini) ?args = Inr KillCookie"
    by (simp add: except_branch_def example_gemini_def)
  have n: "length (files_of (cookie_manager example_gemini)) \<le> 1"
    by (simp add: example_gemini_def CookieManager_init_def)
  have n2: "1 < length (files_of (CookieManager_init False [] (Some [''a'', ''b''])))"
    by (simp add: CookieManager_init_def)
  have l: "runs ?cfg - prompt_runs ?cfg (name (bot ?w)) (temp_results ?w) [] ''p'' = 2"
    by (simp add: prompt_runs_def temp_count_def results_count_def example_config_def
        example_worker_def)
  have z: "?w\<lparr>run := 0, error_count := 0\<rparr> = ?w" "run ?w < 2"
    by (simp_all add: example_worker_def)
  have k1: "fst (kill_cookie_file (cookie_manager example_gemini)) = Some ?E"
    using kill_cookie_file_exhaustion [of "cookie_manager example_gemini"] n by blast
  have k2: "kill_cookie_file (CookieManager_init False [] (Some [''a'', ''b'']))
     = (None, CookieManager_init False [] (Some [''b'']))"
    using kill_cookie_file_exhaustion [of "CookieManager_init False [] (Some [''a'', ''b''])"] n2
    by (auto simp: CookieManager_init_def prod_eq_iff kill_cookie_file_def)
  have wr: "while_runs ?cfg ''p'' 2 (?a # ?as) ?w = (Raised ?E, ?as, ?w')"
    using kill_cookie_file_exhaustion [of _ ?w 2 ?a ?args example_gemini ?cfg "''p''" ?as] q b n z(2)
    by (simp add: example_worker_def unofficial_delay_def cool_down_def example_config_def
        is_unofficial_def example_gemini_def example_attempt_def)
  have "for_prompts ?cfg [] (''p'' # [''q'']) (?a # ?as) ?w = (Raised ?E, ?as, ?w')"
    using kill_cookie_file_exhaustion [of _ ?w _ _ _ _ ?cfg "''p''" _ "[]" "?a # ?as" ?E ?as ?w' "[''q'']"]
      wr l z(1)
    by simp
  then show ?thesis using k1 k2 by simp
qed

section \<open>The temp file and the merge\<close>

text \<open>
  Claim C4, as amended.  After a successful query the worker rewrites the temp file in
  full with the list in memory, which is the list before the query followed by the new
  record.  The rewrite opens the file for writing and then writes it: when it completes,
  the file holds that list; between the two steps the file is incomplete and
  \<^verbatim>\<open>json.load\<close> raises on it.
\<close>

theorem checkpoint_rewrite:
  "(chatbot_query (bot w) a = (Returned text, cb) \<longrightarrow>
      (\<exists>r. temp_results (snd (iteration cfg p a w)) = temp_results w @ [r]
          \<and> store (snd (iteration cfg p a w)) =
              write_json (temp_filename cfg (bot w)) (temp_results w @ [r]) (store w)))
   \<and> write_json_states path rs fs = [fs, open_w path fs, write_json path rs fs]
   \<and> write_json path rs fs path = Some (Document rs)
   \<and> open_w path fs path = Some Incomplete
   \<and> load_if_exists (open_w path fs) path = Inl (Exception ''JSONDecodeError'')"
  by (auto simp: iteration_def Let_def write_json_states_def write_json_def write_close_def
      open_w_def load_if_exists_def)

theorem checkpoint_rewrite_witness:
  "store (snd (iteration (example_config [''p''] 1) ''p'' (example_attempt (Returned ''r''))
      (example_worker example_openai 0))) ''temp/gpt-3.5.json''
   = Some (Document [\<lparr>timestamp = 0, chatbot = ''GPT-3.5'', prompt = ''p'',
                       temperature_value = JNumber 1, response = ''r''\<rparr>])"
proof -
  let ?w = "example_worker example_openai 0" and ?a = "example_attempt (Returned ''r'')"
  have q: "chatbot_query (bot ?w) ?a = (Returned ''r'', example_openai)"
    by (simp add: chatbot_query_def example_worker_def example_attempt_def example_openai_def
        is_unofficial_def)
  have t: "temp_filename (example_config [''p''] 1) (bot ?w) = ''temp/gpt-3.5.json''"
    by (simp add: temp_filename_def example_config_def example_worker_def example_openai_def
        path_join_def lower_def lower_char_def)
  have r: "temp_results (snd (iteration (example_config [''p''] 1) ''p'' ?a ?w)) =
     [\<lparr>timestamp = 0, chatbot = ''GPT-3.5'', prompt = ''p'',
                       temperature_value = JNumber 1, response = ''r''\<rparr>]"
    using q by (simp add: iteration_def Let_def example_worker_def example_attempt_def example_openai_def)
  show ?thesis
    using checkpoint_rewrite [of ?w ?a "''r''" example_openai "example_config [''p''] 1" "''p''"
        "''temp/gpt-3.5.json''" "[]" Map.empty] q t r
    by (auto simp: example_worker_def write_json_def write_close_def)
qed

text \<open>
  Claim C4 as stated says that the content before the rewrite is never lost when the
  process is killed before the rewrite completes.  A temp file holding one record, killed
  after the \<^verbatim>\<open>open\<close> of the rewrite, is left incomplete: the record is lost.
\<close>

theorem checkpoint_rewrite_counterexample:
  "example_store ''temp/gpt-3.5.json'' = Some (Document [example_record ''GPT-3.5'' ''p''])
   \<and> (write_json_states ''temp/gpt-3.5.json''
          [example_record ''GPT-3.5'' ''p'', example_record ''GPT-3.5'' ''q''] example_store ! 1)
        ''temp/gpt-3.5.json'' = Some Incomplete
   \<and> load_if_exists
        (write_json_states ''temp/gpt-3.5.json''
          [example_record ''GPT-3.5'' ''p'', example_record ''GPT-3.5'' ''q''] example_store ! 1)
        ''temp/gpt-3.5.json'' = Inl (Exception ''JSONDecodeError'')"
  by (simp add: example_store_def write_json_states_def open_w_def load_if_exists_def)

lemma combine_distinct:
  assumes "distinct (map (temp_filename cfg) cbs)"
      and "\<forall>cb \<in> set cbs. fs (temp_filename cfg cb) \<noteq> Some Incomplete"
  shows "combine cfg cbs results fs =
           Inr (results @ concat (map (\<lambda>cb. case fs (temp_filename cfg cb) of
                                              Some (Document rs) \<Rightarrow> rs | _ \<Rightarrow> []) cbs),
                (\<lambda>q. if q \<in> temp_filename cfg ` set cbs then None else fs q))"
  using assms
proof (induction cbs arbitrary: results fs)
  case Nil
  then show ?case by simp
next
  case (Cons cb cbs)
  show ?case
  proof (cases "fs (temp_filename cfg cb)")
    case None
    have "combine cfg cbs results fs =
           Inr (results @ concat (map (\<lambda>cb. case fs (temp_filename cfg cb) of
                                              Some (Document rs) \<Rightarrow> rs | _ \<Rightarrow> []) cbs),
                (\<lambda>q. if q \<in> temp_filename cfg ` set cbs then None else fs q))"
      using Cons.prems by (intro Cons.IH) simp_all
    then show ?thesis using None by (auto intro!: ext)
  next
    case (Some c)
    then obtain rs where rs: "fs (temp_filename cfg cb) = Some (Document rs)"
      using Cons.prems(2) by (cases c) auto
    let ?fs = "fs(temp_filename cfg cb := None)"
    have "temp_filename cfg x \<noteq> temp_filename cfg cb" if "x \<in> set cbs" for x
      using Cons.prems(1) that
      by (metis distinct.simps(2) image_eqI list.simps(9) list.set_map)
    then have same: "?fs (temp_filename cfg x) = fs (temp_filename cfg x)" if "x \<in> set cbs" for x
      using that by simp
    have ih: "combine cfg cbs (results @ rs) ?fs =
           Inr ((results @ rs) @ concat (map (\<lambda>cb. case ?fs (temp_filename cfg cb) of
                                              Some (Document rs) \<Rightarrow> rs | _ \<Rightarrow> []) cbs),
                (\<lambda>q. if q \<in> temp_filename cfg ` set cbs then None else ?fs q))"
      using Cons.prems same by (intro Cons.IH) simp_all
    have m: "map (\<lambda>cb. case ?fs (temp_filename cfg cb) of
                                              Some (Document rs) \<Rightarrow> rs | _ \<Rightarrow> []) cbs
        = map (\<lambda>cb. case fs (temp_filename cfg cb) of
                                              Some (Document rs) \<Rightarrow> rs | _ \<Rightarrow> []) cbs"
      using same by (intro map_cong) (simp_all del: fun_upd_apply)
    have "combine cfg cbs (results @ rs) ?fs =
           Inr ((results @ rs) @ concat (map (\<lambda>cb. case fs (temp_filename cfg cb) of
                                              Some (Document rs) \<Rightarrow> rs | _ \<Rightarrow> []) cbs),
                (\<lambda>q. if q \<in> temp_filename cfg ` set cbs then None else ?fs q))"
      using ih by (simp only: m)
    then show ?thesis using rs by (auto intro!: ext)
  qed
qed

text \<open>
  Claim C2.  With two adapters whose temp files are different files and differ from the
  output file, an output file that loads as \<open>out\<close> (the empty list when it does not
  exist) and temp files holding \<open>ra\<close> and \<open>rb\<close>: the merge succeeds, the output file
  then holds \<open>out @ ra @ rb\<close>, so as many records as the three together and each as
  often as in the three together, both temp files are removed, and no other file changes.
\<close>

theorem merge_correctness:
  assumes "chatbots cfg = [a, b]"
      and "temp_filename cfg a \<noteq> temp_filename cfg b"
      and "output_path cfg \<noteq> temp_filename cfg a"
      and "output_path cfg \<noteq> temp_filename cfg b"
      and "load_if_exists fs (output_path cfg) = Inr out"
      and "fs (temp_filename cfg a) = Some (Document ra)"
      and "fs (temp_filename cfg b) = Some (Document rb)"
  shows "\<exists>fs'. query_after_join cfg fs = Inr fs'
           \<and> fs' (output_path cfg) = Some (Document (out @ ra @ rb))
           \<and> length (out @ ra @ rb) = length out + length ra + length rb
           \<and> mset (out @ ra @ rb) = mset out + mset ra + mset rb
           \<and> fs' (temp_filename cfg a) = None
           \<and> fs' (temp_filename cfg b) = None
           \<and> (\<forall>q. q \<noteq> output_path cfg \<and> q \<noteq> temp_filename cfg a \<and> q \<noteq> temp_filename cfg b
                  \<longrightarrow> fs' q = fs q)"
proof -
  have d: "distinct (map (temp_filename cfg) [a, b])" using assms(2) by simp
  have i: "\<forall>cb \<in> set [a, b]. fs (temp_filename cfg cb) \<noteq> Some Incomplete"
    using assms(6,7) by simp
  have "combine cfg [a, b] out fs =
          Inr (out @ ra @ rb,
               (\<lambda>q. if q \<in> temp_filename cfg ` set [a, b] then None else fs q))"
    using combine_distinct [OF d i, of out] assms(6,7) by simp
  then have "query_after_join cfg fs =
          Inr (write_json (output_path cfg) (out @ ra @ rb)
                 (\<lambda>q. if q \<in> temp_filename cfg ` set [a, b] then None else fs q))"
    using assms(1,5) by (simp add: query_after_join_def)
  then show ?thesis
    using assms(3,4) by (simp add: write_json_def write_close_def open_w_def)
qed

theorem merge_correctness_witness:
  "query_after_join (example_config [''p''] 1)
     [''output/results.json'' \<mapsto> Document [example_record ''GPT-3.5'' ''p''],
      ''temp/gpt-3.5.json'' \<mapsto> Document [example_record ''GPT-3.5'' ''q''],
      ''temp/gemini.json'' \<mapsto> Document [example_record ''Gemini'' ''p'', example_record ''Gemini'' ''q'']]
   = Inr [''output/results.json'' \<mapsto>
            Document [example_record ''GPT-3.5'' ''p'', example_record ''GPT-3.5'' ''q'',
                      example_record ''Gemini'' ''p'', example_record ''Gemini'' ''q'']]"
proof -
  let ?cfg = "example_config [''p''] 1"
  let ?fs = "[''output/results.json'' \<mapsto> Document [example_record ''GPT-3.5'' ''p''],
      ''temp/gpt-3.5.json'' \<mapsto> Document [example_record ''GPT-3.5'' ''q''],
      ''temp/gemini.json'' \<mapsto> Document [example_record ''Gemini'' ''p'', example_record ''Gemini'' ''q'']]"
  have ta: "temp_filename ?cfg example_openai = ''temp/gpt-3.5.json''"
    by (simp add: temp_filename_def example_config_def example_openai_def path_join_def
        lower_def lower_char_def)
  have tb: "temp_filename ?cfg example_gemini = ''temp/gemini.json''"
    by (simp add: temp_filename_def example_config_def example_gemini_def path_join_def
        lower_def lower_char_def)
  have op: "output_path ?cfg = ''output/results.json''"
    by (simp add: output_path_def example_config_def path_join_def)
  have h1: "chatbots ?cfg = [example_openai, example_gemini]"
    by (simp add: example_config_def)
  have h2: "temp_filename ?cfg example_openai \<noteq> temp_filename ?cfg example_gemini"
    by (simp add: ta tb)
  have h3: "output_path ?cfg \<noteq> temp_filename ?cfg example_openai"
    by (simp add: ta op)
  have h4: "output_path ?cfg \<noteq> temp_filename ?cfg example_gemini"
    by (simp add: tb op)
  have h5: "load_if_exists ?fs (output_path ?cfg) = Inr [example_record ''GPT-3.5'' ''p'']"
    by (simp add: op load_if_exists_def)
  have h6: "?fs (temp_filename ?cfg example_openai) = Some (Document [example_record ''GPT-3.5'' ''q''])"
    by (simp add: ta)
  have h7: "?fs (temp_filename ?cfg example_gemini)
              = Some (Document [example_record ''Gemini'' ''p'', example_record ''Gemini'' ''q''])"
    by (simp add: tb)
  obtain fs' where r: "query_after_join ?cfg ?fs = Inr fs'"
    and o: "fs' (output_path ?cfg) = Some (Document ([example_record ''GPT-3.5'' ''p'']
              @ [example_record ''GPT-3.5'' ''q'']
              @ [example_record ''Gemini'' ''p'', example_record ''Gemini'' ''q'']))"
    and a: "fs' (temp_filename ?cfg example_openai) = None"
    and b: "fs' (temp_filename ?cfg example_gemini) = None"
    and rest: "\<forall>q. q \<noteq> output_path ?cfg \<and> q \<noteq> temp_filename ?cfg example_openai
                  \<and> q \<noteq> temp_filename ?cfg example_gemini \<longrightarrow> fs' q = ?fs q"
    using merge_correctness [OF h1 h2 h3 h4 h5 h6 h7] by blast
  have "fs' = [''output/results.json'' \<mapsto>
            Document [example_record ''GPT-3.5'' ''p'', example_record ''GPT-3.5'' ''q'',
                      example_record ''Gemini'' ''p'', example_record ''Gemini'' ''q'']]"
  proof (rule ext)
    fix q show "fs' q = [''output/results.json'' \<mapsto>
            Document [example_record ''GPT-3.5'' ''p'', example_record ''GPT-3.5'' ''q'',
                      example_record ''Gemini'' ''p'', example_record ''Gemini'' ''q'']] q"
      using o a b rest [rule_format, of q] unfolding ta tb op
      by (cases "q = ''output/results.json''"; cases "q = ''temp/gpt-3.5.json''";
          cases "q = ''temp/gemini.json''") simp_all
  qed
  then show ?thesis using r by simp
qed

section \<open>Resuming: how many queries the worker makes\<close>





































end
